theory Spec2Isabelle
  imports Complex_Main
begin

section \<open>JavaScript numbers in exact arithmetic\<close>

text \<open>
  A JavaScript number is modelled as a real number or one of the three non-finite values
  of the language. The operators \<open>+\<close>, \<open>-\<close>, \<open>*\<close> and \<open>/\<close> of this type
  are those of exact arithmetic: on finite operands they do not round, overflow or
  underflow as the binary64 operators of the language do. What is proved with them about
  the size of a sum, a product or a quotient is a property in exact arithmetic; the
  rounded operators are defined in the section on binary64 arithmetic below. The two
  zeros of the language are one value, so a nonzero number divided by zero gets the sign
  of the dividend. Everything else follows the operators of the language: a division by
  zero gives an infinity or \<open>NaN\<close>, and \<open>NaN\<close> propagates.
\<close>

datatype num = Fin real | PInf | NInf | NaN

instantiation num :: "{plus, minus, uminus, times, inverse}"
begin

fun uminus_num :: "num \<Rightarrow> num" where
  "uminus_num (Fin a) = Fin (- a)"
| "uminus_num PInf = NInf"
| "uminus_num NInf = PInf"
| "uminus_num NaN = NaN"

fun plus_num :: "num \<Rightarrow> num \<Rightarrow> num" where
  "plus_num (Fin a) (Fin b) = Fin (a + b)"
| "plus_num NaN _ = NaN"
| "plus_num _ NaN = NaN"
| "plus_num PInf NInf = NaN"
| "plus_num NInf PInf = NaN"
| "plus_num PInf _ = PInf"
| "plus_num _ PInf = PInf"
| "plus_num NInf _ = NInf"
| "plus_num _ NInf = NInf"

definition minus_num :: "num \<Rightarrow> num \<Rightarrow> num" where
  "minus_num a b = a + (- b)"

fun times_num :: "num \<Rightarrow> num \<Rightarrow> num" where
  "times_num (Fin a) (Fin b) = Fin (a * b)"
| "times_num NaN _ = NaN"
| "times_num _ NaN = NaN"
| "times_num (Fin a) PInf = (if a = 0 then NaN else if 0 < a then PInf else NInf)"
| "times_num (Fin a) NInf = (if a = 0 then NaN else if 0 < a then NInf else PInf)"
| "times_num PInf (Fin b) = (if b = 0 then NaN else if 0 < b then PInf else NInf)"
| "times_num NInf (Fin b) = (if b = 0 then NaN else if 0 < b then NInf else PInf)"
| "times_num PInf PInf = PInf"
| "times_num NInf NInf = PInf"
| "times_num PInf NInf = NInf"
| "times_num NInf PInf = NInf"

fun divide_num :: "num \<Rightarrow> num \<Rightarrow> num" where
  "divide_num (Fin a) (Fin b) =
     (if b = 0 then (if a = 0 then NaN else if 0 < a then PInf else NInf)
      else Fin (a / b))"
| "divide_num NaN _ = NaN"
| "divide_num _ NaN = NaN"
| "divide_num (Fin a) PInf = Fin 0"
| "divide_num (Fin a) NInf = Fin 0"
| "divide_num PInf (Fin b) = (if 0 \<le> b then PInf else NInf)"
| "divide_num NInf (Fin b) = (if 0 \<le> b then NInf else PInf)"
| "divide_num _ _ = NaN"

definition inverse_num :: "num \<Rightarrow> num" where
  "inverse_num a = divide (Fin 1) a"

instance ..

end

text \<open>\<open>Math.sqrt\<close>, and \<open>Math.pow\<close> at the exponent 2 (the only one the program uses).\<close>

fun Math_sqrt :: "num \<Rightarrow> num" where
  "Math_sqrt (Fin a) = (if a < 0 then NaN else Fin (sqrt a))"
| "Math_sqrt PInf = PInf"
| "Math_sqrt NInf = NaN"
| "Math_sqrt NaN = NaN"

fun Math_pow2 :: "num \<Rightarrow> num" where
  "Math_pow2 (Fin a) = Fin (a\<^sup>2)"
| "Math_pow2 PInf = PInf"
| "Math_pow2 NInf = PInf"
| "Math_pow2 NaN = NaN"

text \<open>\<open>Math.min\<close> and \<open>Math.max\<close> of two numbers: \<open>NaN\<close> if either is.\<close>

fun Math_min :: "num \<Rightarrow> num \<Rightarrow> num" where
  "Math_min (Fin a) (Fin b) = Fin (min a b)"
| "Math_min NaN _ = NaN"
| "Math_min _ NaN = NaN"
| "Math_min NInf _ = NInf"
| "Math_min _ NInf = NInf"
| "Math_min PInf b = b"
| "Math_min a PInf = a"

fun Math_max :: "num \<Rightarrow> num \<Rightarrow> num" where
  "Math_max (Fin a) (Fin b) = Fin (max a b)"
| "Math_max NaN _ = NaN"
| "Math_max _ NaN = NaN"
| "Math_max PInf _ = PInf"
| "Math_max _ PInf = PInf"
| "Math_max NInf b = b"
| "Math_max a NInf = a"

text \<open>The comparison operators \<open>==\<close>, \<open><\<close> and \<open><=\<close> on numbers: false when either side is \<open>NaN\<close>.\<close>

fun js_eq :: "num \<Rightarrow> num \<Rightarrow> bool" where
  "js_eq (Fin a) (Fin b) = (a = b)"
| "js_eq PInf PInf = True"
| "js_eq NInf NInf = True"
| "js_eq _ _ = False"

fun js_less :: "num \<Rightarrow> num \<Rightarrow> bool" where
  "js_less (Fin a) (Fin b) = (a < b)"
| "js_less NaN _ = False"
| "js_less _ NaN = False"
| "js_less _ NInf = False"
| "js_less PInf _ = False"
| "js_less NInf _ = True"
| "js_less _ PInf = True"

definition js_le :: "num \<Rightarrow> num \<Rightarrow> bool" where
  "js_le a b = (js_less a b \<or> js_eq a b)"

text \<open>Truthiness of a number, as \<open>||\<close> tests it: zero and \<open>NaN\<close> are falsy.\<close>

fun truthy :: "num \<Rightarrow> bool" where
  "truthy (Fin a) = (a \<noteq> 0)"
| "truthy NaN = False"
| "truthy _ = True"

text \<open>
  \<open>parseInt\<close> of a number converts it to its decimal string and reads the integer at
  its start. A magnitude from one millionth up to (and excluding) ten to the power 21 is
  printed in positional notation, so the result is the number truncated toward zero.
  Outside that range the string is in exponent notation and only the leading digit is
  read. \<open>Infinity\<close> and \<open>NaN\<close> have no digits: the result is \<open>NaN\<close>.
\<close>

definition trunc :: "real \<Rightarrow> real" where
  "trunc a = (if 0 \<le> a then of_int \<lfloor>a\<rfloor> else of_int \<lceil>a\<rceil>)"

definition leading_digit :: "real \<Rightarrow> real" where
  "leading_digit a = of_int \<lfloor>\<bar>a\<bar> / 10 powr of_int \<lfloor>log 10 \<bar>a\<bar>\<rfloor>\<rfloor>"

fun parseInt :: "num \<Rightarrow> num" where
  "parseInt (Fin a) =
     (if a = 0 then Fin 0
      else if 1 / 10 ^ 6 \<le> \<bar>a\<bar> \<and> \<bar>a\<bar> < 10 ^ 21 then Fin (trunc a)
      else Fin (sgn a * leading_digit a))"
| "parseInt _ = NaN"

section \<open>Clip and ClipAdjustment\<close>

text \<open>A stationary rectangle: the published output type.\<close>

record Clip =
  left :: num
  top :: num
  width :: num
  height :: num

definition new_Clip :: "num \<Rightarrow> num \<Rightarrow> num \<Rightarrow> num \<Rightarrow> Clip" where
  "new_Clip l t w h = \<lparr>left = l, top = t, width = w, height = h\<rparr>"

text \<open>
  The live rectangle: the fields \<open>_x\<close>, \<open>_y\<close>, \<open>_hyp\<close>, \<open>_sin\<close>, \<open>_cos\<close> of the
  source object.
\<close>

record ClipAdjustment =
  adj_x :: num
  adj_y :: num
  adj_hyp :: num
  adj_sin :: num
  adj_cos :: num

definition new_ClipAdjustment :: "num \<Rightarrow> num \<Rightarrow> num \<Rightarrow> num \<Rightarrow> ClipAdjustment" where
  "new_ClipAdjustment left' top' width' height' =
     (let hyp = Math_sqrt (Math_pow2 (parseInt width') + Math_pow2 (parseInt height'))
      in \<lparr>adj_x = left', adj_y = top', adj_hyp = hyp,
          adj_sin = parseInt width' / hyp, adj_cos = parseInt height' / hyp\<rparr>)"

definition adj_zoom :: "num \<Rightarrow> ClipAdjustment \<Rightarrow> ClipAdjustment" where
  "adj_zoom amount' s =
     (let hyp_diff = amount' * Fin (1 / 2)
      in s\<lparr>adj_hyp := adj_hyp s + amount',
            adj_y := adj_y s - hyp_diff * adj_cos s,
            adj_x := adj_x s - hyp_diff * adj_sin s\<rparr>)"

definition adj_move :: "num \<Rightarrow> num \<Rightarrow> ClipAdjustment \<Rightarrow> ClipAdjustment" where
  "adj_move x_offset' y_offset' s =
     s\<lparr>adj_x := adj_x s + x_offset', adj_y := adj_y s + y_offset'\<rparr>"

definition getX :: "ClipAdjustment \<Rightarrow> num" where
  "getX s = adj_x s"

definition getY :: "ClipAdjustment \<Rightarrow> num" where
  "getY s = adj_y s"

definition getWidth :: "ClipAdjustment \<Rightarrow> num" where
  "getWidth s = adj_sin s * adj_hyp s"

definition getHeight :: "ClipAdjustment \<Rightarrow> num" where
  "getHeight s = adj_cos s * adj_hyp s"

definition calcHypDifferenceByWidth :: "ClipAdjustment \<Rightarrow> num \<Rightarrow> num" where
  "calcHypDifferenceByWidth s new_width' = adj_hyp s - new_width' / adj_sin s"

definition calcHypDifferenceByHeight :: "ClipAdjustment \<Rightarrow> num \<Rightarrow> num" where
  "calcHypDifferenceByHeight s new_height' = adj_hyp s - new_height' / adj_cos s"

definition getState :: "ClipAdjustment \<Rightarrow> Clip" where
  "getState s = new_Clip (getX s) (getY s) (getWidth s) (getHeight s)"

section \<open>ImagePlotter\<close>

record ImagePlot =
  image :: Clip
  canvas :: Clip

text \<open>
  The plotter object: the public field \<open>zoom_multiplier\<close> and the private fields
  \<open>_state\<close>, \<open>_image\<close>, \<open>_canvas\<close>. Every method returns its result together with
  the plotter as the call leaves it.
\<close>

record ImagePlotter =
  zoom_multiplier :: num
  priv_state :: ClipAdjustment
  priv_image :: Clip
  priv_canvas :: Clip

definition centerFullSize :: "ImagePlotter \<Rightarrow> ImagePlot \<times> ImagePlotter" where
  "centerFullSize p =
     (let width_diff = width (priv_image p) - width (priv_canvas p);
          height_diff = height (priv_image p) - height (priv_canvas p);
          s = adj_move (- width_diff * Fin (1 / 2)) (- height_diff * Fin (1 / 2)) (priv_state p)
      in (\<lparr>image = new_Clip (Fin 0) (Fin 0) (width (priv_image p)) (height (priv_image p)),
           canvas = getState s\<rparr>,
          p\<lparr>priv_state := s\<rparr>))"

definition cover :: "ImagePlotter \<Rightarrow> ImagePlot \<times> ImagePlotter" where
  "cover p0 =
     (let p = snd (centerFullSize p0);
          s = (if js_eq (Math_min (width (priv_image p)) (height (priv_image p)))
                        (width (priv_image p))
               then adj_zoom (- calcHypDifferenceByWidth (priv_state p) (width (priv_canvas p)))
                      (priv_state p)
               else adj_zoom (- calcHypDifferenceByHeight (priv_state p) (height (priv_canvas p)))
                      (priv_state p))
      in (\<lparr>image = new_Clip (Fin 0) (Fin 0) (width (priv_image p)) (height (priv_image p)),
           canvas = getState s\<rparr>,
          p\<lparr>priv_state := s\<rparr>))"

definition contain :: "ImagePlotter \<Rightarrow> ImagePlot \<times> ImagePlotter" where
  "contain p0 =
     (let p = snd (centerFullSize p0);
          s = (if js_eq (Math_max (width (priv_image p)) (height (priv_image p)))
                        (width (priv_image p))
               then adj_zoom (- calcHypDifferenceByWidth (priv_state p) (width (priv_canvas p)))
                      (priv_state p)
               else adj_zoom (- calcHypDifferenceByHeight (priv_state p) (height (priv_canvas p)))
                      (priv_state p))
      in (\<lparr>image = new_Clip (Fin 0) (Fin 0) (width (priv_image p)) (height (priv_image p)),
           canvas = getState s\<rparr>,
          p\<lparr>priv_state := s\<rparr>))"

text \<open>
  The options of \<open>init\<close> and of the constructor: \<open>orientation\<close> is a string or absent.
\<close>

definition init ::
  "num \<Rightarrow> num \<Rightarrow> num \<Rightarrow> num \<Rightarrow> string option \<Rightarrow> ImagePlotter \<Rightarrow> ImagePlot \<times> ImagePlotter" where
  "init image_width' image_height' canvas_width' canvas_height' orientation p =
     (let p1 = p\<lparr>priv_image := (priv_image p)\<lparr>width := image_width', height := image_height'\<rparr>,
                 priv_canvas := (priv_canvas p)\<lparr>width := canvas_width', height := canvas_height'\<rparr>,
                 priv_state := new_ClipAdjustment (Fin 0) (Fin 0) image_width' image_height'\<rparr>
      in if orientation = Some ''contain'' then contain p1 else cover p1)"

text \<open>
  The constructor. \<open>opts'.orientation || "cover"\<close> replaces an absent or empty
  orientation by \<open>"cover"\<close>.
\<close>

definition new_ImagePlotter ::
  "num \<Rightarrow> num \<Rightarrow> num \<Rightarrow> num \<Rightarrow> string option \<Rightarrow> ImagePlotter" where
  "new_ImagePlotter image_width' image_height' canvas_width' canvas_height' orientation =
     (let p = \<lparr>zoom_multiplier = Fin 1,
               priv_state = new_ClipAdjustment (Fin 0) (Fin 0) (Fin 0) (Fin 0),
               priv_image = new_Clip (Fin 0) (Fin 0) (Fin 0) (Fin 0),
               priv_canvas = new_Clip (Fin 0) (Fin 0) (Fin 0) (Fin 0)\<rparr>;
          orientation' = (case orientation of
                            None \<Rightarrow> Some ''cover''
                          | Some v \<Rightarrow> if v = [] then Some ''cover'' else Some v)
      in snd (init image_width' image_height' canvas_width' canvas_height' orientation' p))"

definition move :: "num \<Rightarrow> num \<Rightarrow> ImagePlotter \<Rightarrow> ImagePlot \<times> ImagePlotter" where
  "move x_move' y_move' p =
     (let s = adj_move x_move' y_move' (priv_state p)
      in (\<lparr>image = new_Clip (Fin 0) (Fin 0) (width (priv_image p)) (height (priv_image p)),
           canvas = getState s\<rparr>,
          p\<lparr>priv_state := s\<rparr>))"

text \<open>
  The options of \<open>zoom\<close>: each field is a number or absent. \<open>parseInt\<close> of an absent
  field is \<open>NaN\<close>.
\<close>

record ZoomOpts =
  opt_zoom_multiplier :: "num option"
  opt_zoom_depth :: "num option"

text \<open>
  \<open>a || b\<close> where \<open>a\<close> is a number or \<open>undefined\<close>: \<open>undefined\<close>, zero and
  \<open>NaN\<close> give \<open>b\<close>.
\<close>

fun or_else :: "num option \<Rightarrow> num \<Rightarrow> num" where
  "or_else None b = b"
| "or_else (Some a) b = (if truthy a then a else b)"

fun parseInt_opt :: "num option \<Rightarrow> num" where
  "parseInt_opt None = NaN"
| "parseInt_opt (Some d) = parseInt d"

text \<open>The two local variables \<open>mult\<close> and \<open>depth\<close> of \<open>zoom\<close>.\<close>

definition zoom_mult :: "ZoomOpts \<Rightarrow> ImagePlotter \<Rightarrow> num" where
  "zoom_mult opts' p = or_else (opt_zoom_multiplier opts') (zoom_multiplier p)"

definition zoom_depth :: "ZoomOpts \<Rightarrow> num" where
  "zoom_depth opts' = or_else (Some (parseInt_opt (opt_zoom_depth opts'))) (Fin 0)"

definition zoom :: "ZoomOpts \<Rightarrow> ImagePlotter \<Rightarrow> ImagePlot \<times> ImagePlotter" where
  "zoom opts' p =
     (let mult = zoom_mult opts' p;
          depth = zoom_depth opts';
          s = adj_zoom (mult * depth) (priv_state p)
      in (\<lparr>image = new_Clip (Fin 0) (Fin 0) (width (priv_image p)) (height (priv_image p)),
           canvas = getState s\<rparr>,
          p\<lparr>priv_state := s\<rparr>))"

section \<open>Notions used to state the properties\<close>

fun is_Fin :: "num \<Rightarrow> bool" where
  "is_Fin (Fin a) = True"
| "is_Fin _ = False"

text \<open>The centre of the live rectangle: \<open>x + width()/2\<close> and \<open>y + height()/2\<close>.\<close>

definition center_x :: "ClipAdjustment \<Rightarrow> num" where
  "center_x s = getX s + getWidth s / Fin 2"

definition center_y :: "ClipAdjustment \<Rightarrow> num" where
  "center_y s = getY s + getHeight s / Fin 2"

text \<open>
  A client's sequence of calls on one ClipAdjustment, with finite arguments: any mix of
  \<open>zoom\<close> and \<open>move\<close>, and a sequence of \<open>zoom\<close> alone.
\<close>

datatype call = ZoomBy real | MoveBy real real

fun calls :: "call list \<Rightarrow> ClipAdjustment \<Rightarrow> ClipAdjustment" where
  "calls [] s = s"
| "calls (ZoomBy a # cs) s = calls cs (adj_zoom (Fin a) s)"
| "calls (MoveBy dx dy # cs) s = calls cs (adj_move (Fin dx) (Fin dy) s)"

fun zooms :: "real list \<Rightarrow> ClipAdjustment \<Rightarrow> ClipAdjustment" where
  "zooms [] s = s"
| "zooms (a # as) s = zooms as (adj_zoom (Fin a) s)"

definition finite_adj :: "ClipAdjustment \<Rightarrow> bool" where
  "finite_adj s = (is_Fin (adj_x s) \<and> is_Fin (adj_y s) \<and> is_Fin (adj_hyp s)
     \<and> is_Fin (adj_sin s) \<and> is_Fin (adj_cos s))"

text \<open>
  The plotters a client can hold: the constructor's result, and whatever the public
  methods and an assignment to the public field \<open>zoom_multiplier\<close> make of it. The
  arguments are any numbers, finite or not.
\<close>

inductive reachable :: "ImagePlotter \<Rightarrow> bool" where
  constructed: "reachable (new_ImagePlotter iw ih vw vh orientation)"
| after_init: "reachable p \<Longrightarrow> reachable (snd (init iw ih vw vh orientation p))"
| after_centerFullSize: "reachable p \<Longrightarrow> reachable (snd (centerFullSize p))"
| after_cover: "reachable p \<Longrightarrow> reachable (snd (cover p))"
| after_contain: "reachable p \<Longrightarrow> reachable (snd (contain p))"
| after_move: "reachable p \<Longrightarrow> reachable (snd (move dx dy p))"
| after_zoom: "reachable p \<Longrightarrow> reachable (snd (zoom opts p))"
| set_zoom_multiplier: "reachable p \<Longrightarrow> reachable (p\<lparr>zoom_multiplier := m\<rparr>)"

text \<open>
  What every reachable plotter satisfies: the two ratios are finite, or the position is
  already \<open>NaN\<close>.
\<close>

definition ratios_ok :: "ClipAdjustment \<Rightarrow> bool" where
  "ratios_ok s =
     ((is_Fin (adj_sin s) \<and> is_Fin (adj_cos s)) \<or> (adj_x s = NaN \<and> adj_y s = NaN))"

text \<open>
  The multiplier and the depth of \<open>zoom\<close> in the words of the specification:
  \<open>zoomMultiplier ?? this.zoomMultiplier\<close> takes the per-call value whenever one is
  supplied, and \<open>integerCoerce(zoomDepth) ?? 0\<close> is the parsed depth, or 0 when there is
  none.
\<close>

definition claimed_multiplier :: "ZoomOpts \<Rightarrow> ImagePlotter \<Rightarrow> num" where
  "claimed_multiplier opts p =
     (case opt_zoom_multiplier opts of None \<Rightarrow> zoom_multiplier p | Some m \<Rightarrow> m)"

definition coerced_depth :: "ZoomOpts \<Rightarrow> num" where
  "coerced_depth opts =
     (case opt_zoom_depth opts of
        None \<Rightarrow> Fin 0
      | Some d \<Rightarrow> if parseInt d = NaN then Fin 0 else parseInt d)"

text \<open>
  The multiplier as amended: a per-call value of zero or \<open>NaN\<close> counts as absent.
\<close>

definition amended_multiplier :: "ZoomOpts \<Rightarrow> ImagePlotter \<Rightarrow> num" where
  "amended_multiplier opts p =
     (case opt_zoom_multiplier opts of
        None \<Rightarrow> zoom_multiplier p
      | Some m \<Rightarrow> if m = Fin 0 \<or> m = NaN then zoom_multiplier p else m)"

section \<open>Binary64 arithmetic\<close>

text \<open>
  The numbers of the program are IEEE 754 binary64 values. \<open>binary64\<close> rounds a real
  number to the nearest one, ties to the even significand: the quantum is two to the
  power of the exponent less 52, the exponent is at least -1022 (below it the values are
  subnormal), and a result of magnitude two to the power 1024 or more is an infinity.
  \<open>fl_plus\<close>, \<open>fl_minus\<close>, \<open>fl_times\<close> and \<open>fl_divide\<close> are the operators
  \<open>+\<close>, \<open>-\<close>, \<open>*\<close> and \<open>/\<close> as the program computes them: the exact result,
  rounded. On a non-finite operand, and for a division by zero, they are the operators
  of \<open>num\<close>.
\<close>

definition two_to :: "int \<Rightarrow> real" where
  "two_to k = (if 0 \<le> k then 2 ^ nat k else 1 / 2 ^ nat (- k))"

definition round_half_even :: "real \<Rightarrow> int" where
  "round_half_even z =
     (if z - of_int \<lfloor>z\<rfloor> < 1 / 2 then \<lfloor>z\<rfloor>
      else if 1 / 2 < z - of_int \<lfloor>z\<rfloor> then \<lfloor>z\<rfloor> + 1
      else if even \<lfloor>z\<rfloor> then \<lfloor>z\<rfloor> else \<lfloor>z\<rfloor> + 1)"

definition quantum :: "real \<Rightarrow> real" where
  "quantum a = two_to (max \<lfloor>log 2 \<bar>a\<bar>\<rfloor> (- 1022) - 52)"

definition binary64 :: "real \<Rightarrow> num" where
  "binary64 a =
     (if a = 0 then Fin 0
      else let r = quantum a * of_int (round_half_even (a / quantum a))
           in if 2 ^ 1024 \<le> r then PInf
              else if r \<le> - (2 ^ 1024) then NInf
              else Fin r)"

fun fl_plus :: "num \<Rightarrow> num \<Rightarrow> num" where
  "fl_plus (Fin a) (Fin b) = binary64 (a + b)"
| "fl_plus a b = a + b"

fun fl_times :: "num \<Rightarrow> num \<Rightarrow> num" where
  "fl_times (Fin a) (Fin b) = binary64 (a * b)"
| "fl_times a b = a * b"

fun fl_divide :: "num \<Rightarrow> num \<Rightarrow> num" where
  "fl_divide (Fin a) (Fin b) = (if b = 0 then Fin a / Fin b else binary64 (a / b))"
| "fl_divide a b = a / b"

definition fl_minus :: "num \<Rightarrow> num \<Rightarrow> num" where
  "fl_minus a b = fl_plus a (- b)"

text \<open>
  \<open>zoom\<close>, \<open>getWidth\<close> and \<open>getHeight\<close> of a ClipAdjustment with the rounded
  operators: the same statements as \<open>adj_zoom\<close>, \<open>getWidth\<close> and \<open>getHeight\<close>
  above.
\<close>

definition adj_zoom_fl :: "num \<Rightarrow> ClipAdjustment \<Rightarrow> ClipAdjustment" where
  "adj_zoom_fl amount' s =
     (let hyp_diff = fl_times amount' (Fin (1 / 2))
      in s\<lparr>adj_hyp := fl_plus (adj_hyp s) amount',
            adj_y := fl_minus (adj_y s) (fl_times hyp_diff (adj_cos s)),
            adj_x := fl_minus (adj_x s) (fl_times hyp_diff (adj_sin s))\<rparr>)"

definition getWidth_fl :: "ClipAdjustment \<Rightarrow> num" where
  "getWidth_fl s = fl_times (adj_sin s) (adj_hyp s)"

definition getHeight_fl :: "ClipAdjustment \<Rightarrow> num" where
  "getHeight_fl s = fl_times (adj_cos s) (adj_hyp s)"

text \<open>
  The object \<open>new ClipAdjustment(0, 0, 3, 4)\<close> as the program holds it: the diagonal
  is exactly 5, and the two ratios are 3/5 and 4/5 rounded.
\<close>

definition clip_3_4 :: ClipAdjustment where
  "clip_3_4 = \<lparr>adj_x = Fin 0, adj_y = Fin 0, adj_hyp = Fin 5,
                adj_sin = binary64 (3 / 5), adj_cos = binary64 (4 / 5)\<rparr>"

section \<open>Arithmetic of the number model\<close>

lemma minus_Fin [simp]: "Fin a - Fin b = Fin (a - b)"
  by (simp add: minus_num_def)

lemma minus_NaN [simp]: "a - NaN = NaN" "NaN - a = NaN"
  by (cases a; simp add: minus_num_def)+

lemma plus_Fin_0 [simp]: "a + Fin 0 = a"
  by (cases a) simp_all

lemma minus_Fin_0 [simp]: "a - Fin 0 = a"
  by (cases a) (simp_all add: minus_num_def)

lemma times_NaN [simp]: "a * NaN = NaN"
  by (cases a) simp_all

lemma plus_num_assoc: "(a + b) + c = a + (b + (c::num))"
  by (cases a; cases b; cases c) simp_all

lemma is_Fin_iff: "is_Fin v \<longleftrightarrow> (\<exists>a. v = Fin a)"
  by (cases v) simp_all

lemma parseInt_Fin: "\<exists>k. parseInt (Fin a) = Fin k"
  by simp

lemma parseInt_cases: "(\<exists>k. parseInt v = Fin k) \<or> parseInt v = NaN"
  by (cases v) simp_all

lemma sqrt_sum_squares_zero: "sqrt (a\<^sup>2 + b\<^sup>2) = 0 \<longleftrightarrow> a = 0 \<and> b = 0"
  by (simp add: sum_power2_eq_zero_iff)

lemma sqrt_25: "sqrt 25 = 5"
  by (rule real_sqrt_unique) auto

lemma sqrt_100: "sqrt 100 = 10"
  by (rule real_sqrt_unique) auto

lemma min_max_same_branch:
  "js_eq w h \<Longrightarrow> js_eq (Math_min w h) w \<and> js_eq (Math_max w h) w"
  by (cases w; cases h) simp_all

section \<open>Concrete rectangles\<close>

lemmas plot_defs = init_def cover_def contain_def centerFullSize_def Let_def adj_move_def
  adj_zoom_def calcHypDifferenceByWidth_def calcHypDifferenceByHeight_def getState_def
  getX_def getY_def getWidth_def getHeight_def new_Clip_def

lemma new_6_8:
  "new_ClipAdjustment (Fin 0) (Fin 0) (Fin 6) (Fin 8) =
     \<lparr>adj_x = Fin 0, adj_y = Fin 0, adj_hyp = Fin 10,
      adj_sin = Fin (3 / 5), adj_cos = Fin (4 / 5)\<rparr>"
  by (simp add: new_ClipAdjustment_def sqrt_100 Let_def trunc_def)

lemma new_8_6:
  "new_ClipAdjustment (Fin 0) (Fin 0) (Fin 8) (Fin 6) =
     \<lparr>adj_x = Fin 0, adj_y = Fin 0, adj_hyp = Fin 10,
      adj_sin = Fin (4 / 5), adj_cos = Fin (3 / 5)\<rparr>"
  by (simp add: new_ClipAdjustment_def sqrt_100 Let_def trunc_def)

lemma plotter_8_6_4_3:
  "new_ImagePlotter (Fin 8) (Fin 6) (Fin 4) (Fin 3) (Some ''cover'') =
     \<lparr>zoom_multiplier = Fin 1,
      priv_state = \<lparr>adj_x = Fin 0, adj_y = Fin 0, adj_hyp = Fin 5,
                    adj_sin = Fin (4 / 5), adj_cos = Fin (3 / 5)\<rparr>,
      priv_image = \<lparr>left = Fin 0, top = Fin 0, width = Fin 8, height = Fin 6\<rparr>,
      priv_canvas = \<lparr>left = Fin 0, top = Fin 0, width = Fin 4, height = Fin 3\<rparr>\<rparr>"
  by (simp add: new_ImagePlotter_def plot_defs new_8_6)

section \<open>Finite rectangles\<close>

lemma new_ClipAdjustment_finite:
  assumes "\<not> (parseInt (Fin w) = Fin 0 \<and> parseInt (Fin h) = Fin 0)"
  shows "finite_adj (new_ClipAdjustment (Fin x) (Fin y) (Fin w) (Fin h))"
proof -
  obtain pw ph where p: "parseInt (Fin w) = Fin pw" "parseInt (Fin h) = Fin ph"
    using parseInt_Fin by blast
  with assms have "\<not> (pw = 0 \<and> ph = 0)" by simp
  then have "sqrt (pw\<^sup>2 + ph\<^sup>2) \<noteq> 0"
    by (simp add: sqrt_sum_squares_zero)
  then show ?thesis
    by (simp add: new_ClipAdjustment_def finite_adj_def Let_def p not_sum_power2_lt_zero
        del: parseInt.simps)
qed

lemma adj_zoom_finite: "finite_adj s \<Longrightarrow> finite_adj (adj_zoom (Fin a) s)"
  by (auto simp: finite_adj_def adj_zoom_def Let_def is_Fin_iff)

lemma adj_move_finite: "finite_adj s \<Longrightarrow> finite_adj (adj_move (Fin dx) (Fin dy) s)"
  by (auto simp: finite_adj_def adj_move_def is_Fin_iff)

lemma calls_finite: "finite_adj s \<Longrightarrow> finite_adj (calls cs s)"
  by (induction cs s rule: calls.induct) (simp_all add: adj_zoom_finite adj_move_finite)

lemma finite_zoom_center:
  assumes "finite_adj s"
  shows "js_eq (center_x (adj_zoom (Fin a) s)) (center_x s)
       \<and> js_eq (center_y (adj_zoom (Fin a) s)) (center_y s)"
proof -
  from assms obtain x y d sn cs where
    s: "adj_x s = Fin x" "adj_y s = Fin y" "adj_hyp s = Fin d"
       "adj_sin s = Fin sn" "adj_cos s = Fin cs"
    by (auto simp: finite_adj_def is_Fin_iff)
  show ?thesis
    by (simp add: center_x_def center_y_def adj_zoom_def getX_def getY_def getWidth_def
        getHeight_def Let_def s algebra_simps)
qed

lemma zooms_sin_cos: "adj_sin (zooms as s) = adj_sin s \<and> adj_cos (zooms as s) = adj_cos s"
  by (induction as arbitrary: s) (simp_all add: adj_zoom_def Let_def)

lemma zooms_hyp: "adj_hyp s = Fin d \<Longrightarrow> adj_hyp (zooms as s) = Fin (d + sum_list as)"
  by (induction as arbitrary: s d) (simp_all add: adj_zoom_def Let_def add.assoc)

section \<open>Reachable plotters\<close>

lemma new_ratios:
  "(is_Fin (adj_sin (new_ClipAdjustment l t w h)) \<and> is_Fin (adj_cos (new_ClipAdjustment l t w h)))
   \<or> (adj_sin (new_ClipAdjustment l t w h) = NaN \<and> adj_cos (new_ClipAdjustment l t w h) = NaN)"
proof -
  consider (nan) "parseInt w = NaN \<or> parseInt h = NaN"
    | (fin) pw ph where "parseInt w = Fin pw" "parseInt h = Fin ph"
    using parseInt_cases [of w] parseInt_cases [of h] by blast
  then show ?thesis
  proof cases
    case nan
    then have "Math_sqrt (Math_pow2 (parseInt w) + Math_pow2 (parseInt h)) = NaN"
      using parseInt_cases [of w] parseInt_cases [of h] by auto
    then show ?thesis
      using parseInt_cases [of w] parseInt_cases [of h]
      by (auto simp: new_ClipAdjustment_def Let_def)
  next
    case fin
    then show ?thesis
      by (simp add: new_ClipAdjustment_def Let_def not_sum_power2_lt_zero
          sum_power2_eq_zero_iff)
  qed
qed

lemma adj_zoom_ratios_ok: "ratios_ok s \<Longrightarrow> ratios_ok (adj_zoom a s)"
  by (auto simp: ratios_ok_def adj_zoom_def Let_def)

lemma adj_move_ratios_ok: "ratios_ok s \<Longrightarrow> ratios_ok (adj_move dx dy s)"
  by (auto simp: ratios_ok_def adj_move_def)

lemma adj_zoom_fresh:
  assumes "(is_Fin (adj_sin s) \<and> is_Fin (adj_cos s)) \<or> (adj_sin s = NaN \<and> adj_cos s = NaN)"
  shows "ratios_ok (adj_zoom a s)"
  using assms by (auto simp: ratios_ok_def adj_zoom_def Let_def)

lemma adj_move_sin_cos [simp]:
  "adj_sin (adj_move dx dy s) = adj_sin s" "adj_cos (adj_move dx dy s) = adj_cos s"
  by (simp_all add: adj_move_def)

lemma cover_state:
  "\<exists>a. priv_state (snd (cover p)) = adj_zoom a (priv_state (snd (centerFullSize p)))"
  by (simp add: cover_def Let_def) blast

lemma contain_state:
  "\<exists>a. priv_state (snd (contain p)) = adj_zoom a (priv_state (snd (centerFullSize p)))"
  by (simp add: contain_def Let_def) blast

lemma centerFullSize_state:
  "\<exists>dx dy. priv_state (snd (centerFullSize p)) = adj_move dx dy (priv_state p)"
  by (simp add: centerFullSize_def Let_def) blast

lemma fit_fresh:
  assumes "(is_Fin (adj_sin (priv_state p)) \<and> is_Fin (adj_cos (priv_state p)))
           \<or> (adj_sin (priv_state p) = NaN \<and> adj_cos (priv_state p) = NaN)"
  shows "ratios_ok (priv_state (snd (cover p)))" and "ratios_ok (priv_state (snd (contain p)))"
proof -
  obtain dx dy where m: "priv_state (snd (centerFullSize p)) = adj_move dx dy (priv_state p)"
    using centerFullSize_state by blast
  obtain a where "priv_state (snd (cover p)) = adj_zoom a (adj_move dx dy (priv_state p))"
    using cover_state [of p] m by auto
  then show "ratios_ok (priv_state (snd (cover p)))"
    using assms by (simp add: adj_zoom_fresh)
  obtain b where "priv_state (snd (contain p)) = adj_zoom b (adj_move dx dy (priv_state p))"
    using contain_state [of p] m by auto
  then show "ratios_ok (priv_state (snd (contain p)))"
    using assms by (simp add: adj_zoom_fresh)
qed

lemma init_ratios_ok: "ratios_ok (priv_state (snd (init iw ih vw vh orientation p)))"
  by (simp add: init_def Let_def fit_fresh new_ratios)

lemma fit_ratios_ok:
  assumes "ratios_ok (priv_state p)"
  shows "ratios_ok (priv_state (snd (centerFullSize p)))"
    and "ratios_ok (priv_state (snd (cover p)))"
    and "ratios_ok (priv_state (snd (contain p)))"
proof -
  obtain dx dy where m: "priv_state (snd (centerFullSize p)) = adj_move dx dy (priv_state p)"
    using centerFullSize_state by blast
  with assms show c: "ratios_ok (priv_state (snd (centerFullSize p)))"
    by (simp add: adj_move_ratios_ok)
  obtain a where "priv_state (snd (cover p)) = adj_zoom a (priv_state (snd (centerFullSize p)))"
    using cover_state by blast
  with c show "ratios_ok (priv_state (snd (cover p)))"
    by (simp add: adj_zoom_ratios_ok)
  obtain b where "priv_state (snd (contain p)) = adj_zoom b (priv_state (snd (centerFullSize p)))"
    using contain_state by blast
  with c show "ratios_ok (priv_state (snd (contain p)))"
    by (simp add: adj_zoom_ratios_ok)
qed

lemma reachable_ratios_ok: "reachable p \<Longrightarrow> ratios_ok (priv_state p)"
proof (induction rule: reachable.induct)
  case (constructed iw ih vw vh orientation)
  show ?case by (simp add: new_ImagePlotter_def Let_def init_ratios_ok)
next
  case (after_init p iw ih vw vh orientation)
  show ?case by (rule init_ratios_ok)
next
  case (after_move p dx dy)
  then show ?case by (simp add: move_def Let_def adj_move_ratios_ok)
next
  case (after_zoom p opts)
  then show ?case by (simp add: zoom_def Let_def adj_zoom_ratios_ok)
qed (simp_all add: fit_ratios_ok)

lemma adj_zoom_zero: "ratios_ok s \<Longrightarrow> adj_zoom (Fin 0) s = s"
  by (auto simp: ratios_ok_def adj_zoom_def Let_def is_Fin_iff)

lemma zoom_depth_unparsed:
  assumes "opt_zoom_depth opts = None \<or> (\<exists>d. opt_zoom_depth opts = Some d \<and> parseInt d = NaN)"
  shows "zoom_depth opts = Fin 0"
  using assms by (auto simp: zoom_depth_def)

section \<open>Evaluating binary64 arithmetic\<close>

lemma quantum_eq:
  assumes "two_to e \<le> \<bar>a\<bar>" and "\<bar>a\<bar> < two_to (e + 1)" and "- 1022 \<le> e"
  shows "quantum a = two_to (e - 52)"
proof -
  have tw: "two_to k = 2 powr of_int k" for k
    by (simp add: two_to_def powr_int)
  have "0 < two_to e" by (simp add: two_to_def)
  with assms(1) have pos: "0 < \<bar>a\<bar>" by linarith
  have "\<lfloor>log 2 \<bar>a\<bar>\<rfloor> = e"
    using assms(1,2) pos by (simp add: floor_log_eq_powr_iff tw)
  with assms(3) show ?thesis by (simp add: quantum_def)
qed

lemma binary64_eval:
  assumes "two_to e \<le> \<bar>a\<bar>" and "\<bar>a\<bar> < two_to (e + 1)" and "- 1022 \<le> e"
    and "r = two_to (e - 52) * of_int (round_half_even (a / two_to (e - 52)))"
    and "\<bar>r\<bar> < 2 ^ 1024"
  shows "binary64 a = Fin r"
proof -
  have "0 < two_to e" by (simp add: two_to_def)
  with assms(1) have nz: "a \<noteq> 0" by auto
  have q: "quantum a = two_to (e - 52)"
    using assms(1-3) by (rule quantum_eq)
  from assms(5) have "\<not> 2 ^ 1024 \<le> r" and "\<not> r \<le> - (2 ^ 1024)"
    by linarith+
  then show ?thesis
    unfolding binary64_def Let_def q assms(4) [symmetric] using nz by simp
qed

lemma binary64_0: "binary64 0 = Fin 0"
  by (simp add: binary64_def)

lemma binary64_sum: "binary64 (5 + 10 ^ 16) = Fin (10 ^ 16 + 4)"
  by (rule binary64_eval [of 53]) (simp_all add: two_to_def round_half_even_def)

lemma binary64_diff: "binary64 (10 ^ 16 + 4 + - (10 ^ 16)) = Fin 4"
  by (rule binary64_eval [of 2]) (simp_all add: two_to_def round_half_even_def)

lemma binary64_same: "binary64 (5 + 0) = Fin 5"
  by (rule binary64_eval [of 2]) (simp_all add: two_to_def round_half_even_def)

lemma binary64_3_5: "binary64 (3 / 5) = Fin (5404319552844595 / 2 ^ 53)"
  by (rule binary64_eval [of "- 1"]) (simp_all add: two_to_def round_half_even_def)

lemma binary64_width_4:
  "binary64 (5404319552844595 / 2 ^ 53 * 4) = Fin (5404319552844595 / 2 ^ 51)"
  by (rule binary64_eval [of 1]) (simp_all add: two_to_def round_half_even_def)

lemma binary64_width_5: "binary64 (5404319552844595 / 2 ^ 53 * 5) = Fin 3"
  by (rule binary64_eval [of 1]) (simp_all add: two_to_def round_half_even_def)

lemma binary64_4_5: "binary64 (4 / 5) = Fin (7205759403792794 / 2 ^ 53)"
  by (rule binary64_eval [of "- 1"]) (simp_all add: two_to_def round_half_even_def)

lemma binary64_absorbs: "binary64 (5 + 2 ^ 1023) = Fin (2 ^ 1023)"
  by (rule binary64_eval [of 1023]) (simp_all add: two_to_def round_half_even_def)

lemma binary64_overflows: "binary64 (2 ^ 1023 + 2 ^ 1023) = PInf"
proof -
  have "quantum (2 ^ 1023 + 2 ^ 1023) = two_to (1024 - 52)"
    by (rule quantum_eq) (simp_all add: two_to_def)
  then show ?thesis
    by (simp add: binary64_def Let_def two_to_def round_half_even_def)
qed

lemma adj_zoom_fl_cos: "adj_cos (adj_zoom_fl a s) = adj_cos s"
  by (simp add: adj_zoom_fl_def Let_def)

lemma clip_3_4_cos: "adj_cos clip_3_4 = Fin (7205759403792794 / 2 ^ 53)"
  by (simp only: clip_3_4_def ClipAdjustment.select_convs binary64_4_5)

lemma adj_zoom_fl_hyp: "adj_hyp (adj_zoom_fl a s) = fl_plus (adj_hyp s) a"
  by (simp add: adj_zoom_fl_def Let_def)

lemma adj_zoom_fl_sin: "adj_sin (adj_zoom_fl a s) = adj_sin s"
  by (simp add: adj_zoom_fl_def Let_def)

lemma clip_3_4_hyp: "adj_hyp clip_3_4 = Fin 5"
  by (simp add: clip_3_4_def)

lemma clip_3_4_sin: "adj_sin clip_3_4 = Fin (5404319552844595 / 2 ^ 53)"
  by (simp only: clip_3_4_def ClipAdjustment.select_convs binary64_3_5)

section \<open>Fitting the image: cover and contain\<close>

text \<open>
  Claim C1 (cover gives a rectangle at least as wide and as high as the viewport). The
  code contradicts it: for an image of 6 by 8 in a viewport of 3 by 40 the smaller image
  side is the width, so \<open>cover\<close> fits the width to 3 and the height comes out as 4.
  The rectangle returned by \<open>init\<close> with orientation \<open>"cover"\<close> is
  \<open>(0, 18, 3, 4)\<close>, and \<open>40 <= 4\<close> is false: the viewport is not covered.
\<close>

theorem cover_leaves_viewport_uncovered:
  "canvas (fst (init (Fin 6) (Fin 8) (Fin 3) (Fin 40) (Some ''cover'') p)) =
     \<lparr>left = Fin 0, top = Fin 18, width = Fin 3, height = Fin 4\<rparr>
   \<and> \<not> js_le (Fin 40)
         (height (canvas (fst (init (Fin 6) (Fin 8) (Fin 3) (Fin 40) (Some ''cover'') p))))"
  by (simp add: plot_defs new_6_8 js_le_def)

text \<open>
  Claim C2 (contain gives a rectangle no wider and no higher than the viewport). The
  code contradicts it: for an image of 8 by 6 in a viewport of 40 by 3 the larger image
  side is the width, so \<open>contain\<close> fits the width to 40 and the height comes out as
  30. The rectangle returned by \<open>init\<close> with orientation \<open>"contain"\<close> is
  \<open>(0, -13.5, 40, 30)\<close>, and \<open>30 <= 3\<close> is false: the image does not fit.
\<close>

theorem contain_overflows_viewport:
  "canvas (fst (init (Fin 8) (Fin 6) (Fin 40) (Fin 3) (Some ''contain'') p)) =
     \<lparr>left = Fin 0, top = Fin (- 27 / 2), width = Fin 40, height = Fin 30\<rparr>
   \<and> \<not> js_le
         (height (canvas (fst (init (Fin 8) (Fin 6) (Fin 40) (Fin 3) (Some ''contain'') p))))
         (Fin 3)"
  by (simp add: plot_defs new_8_6 js_le_def)

text \<open>
  Claim C5 (two calls of \<open>cover\<close> in a row return the same result). The code
  contradicts it: every call of \<open>cover\<close> first moves the rectangle by half the
  difference of image and viewport, from wherever it is. On the plotter constructed for
  an image of 8 by 6 in a viewport of 4 by 3, the first call returns
  \<open>(-2, -1.5, 4, 3)\<close> and the second \<open>(-4, -3, 4, 3)\<close>.
\<close>

theorem cover_twice_differs:
  "canvas (fst (cover (new_ImagePlotter (Fin 8) (Fin 6) (Fin 4) (Fin 3) (Some ''cover'')))) =
     \<lparr>left = Fin (- 2), top = Fin (- 3 / 2), width = Fin 4, height = Fin 3\<rparr>
   \<and> canvas (fst (cover (snd (cover
        (new_ImagePlotter (Fin 8) (Fin 6) (Fin 4) (Fin 3) (Some ''cover'')))))) =
     \<lparr>left = Fin (- 4), top = Fin (- 3), width = Fin 4, height = Fin 3\<rparr>
   \<and> fst (cover (snd (cover
        (new_ImagePlotter (Fin 8) (Fin 6) (Fin 4) (Fin 3) (Some ''cover''))))) \<noteq>
     fst (cover (new_ImagePlotter (Fin 8) (Fin 6) (Fin 4) (Fin 3) (Some ''cover'')))"
  by (simp add: plotter_8_6_4_3 plot_defs)

text \<open>
  Claim C9: on a plotter whose image width equals its image height, \<open>cover\<close> and
  \<open>contain\<close> both take the width branch, return equal results and leave the plotter
  in equal states.
\<close>

theorem square_cover_contain:
  assumes "js_eq (width (priv_image p)) (height (priv_image p))"
  shows "js_eq (Math_min (width (priv_image p)) (height (priv_image p))) (width (priv_image p))
       \<and> js_eq (Math_max (width (priv_image p)) (height (priv_image p))) (width (priv_image p))
       \<and> cover p = contain p"
  using min_max_same_branch [OF assms]
  by (simp add: cover_def contain_def centerFullSize_def Let_def)

theorem square_cover_contain_witness:
  "js_eq (width (priv_image (new_ImagePlotter (Fin 5) (Fin 5) (Fin 4) (Fin 3) None)))
         (height (priv_image (new_ImagePlotter (Fin 5) (Fin 5) (Fin 4) (Fin 3) None)))
   \<and> cover (new_ImagePlotter (Fin 5) (Fin 5) (Fin 4) (Fin 3) None) =
     contain (new_ImagePlotter (Fin 5) (Fin 5) (Fin 4) (Fin 3) None)"
proof -
  have sq: "js_eq (width (priv_image (new_ImagePlotter (Fin 5) (Fin 5) (Fin 4) (Fin 3) None)))
                  (height (priv_image (new_ImagePlotter (Fin 5) (Fin 5) (Fin 4) (Fin 3) None)))"
    by (simp add: new_ImagePlotter_def init_def cover_def centerFullSize_def Let_def
        new_Clip_def)
  from square_cover_contain [OF sq] sq show ?thesis
    by blast
qed

section \<open>Moving and zooming the rectangle\<close>

text \<open>
  Claim C7 (zoom is additive), as amended: in exact arithmetic, \<open>zoom(a)\<close> followed
  by \<open>zoom(b)\<close> ends with the same diagonal, width and height as the single call
  \<open>zoom(a + b)\<close> from the same state.
\<close>

theorem zoom_additive:
  "adj_hyp (adj_zoom b (adj_zoom a s)) = adj_hyp (adj_zoom (a + b) s)
   \<and> getWidth (adj_zoom b (adj_zoom a s)) = getWidth (adj_zoom (a + b) s)
   \<and> getHeight (adj_zoom b (adj_zoom a s)) = getHeight (adj_zoom (a + b) s)"
  by (simp add: adj_zoom_def getWidth_def getHeight_def Let_def plus_num_assoc)

text \<open>
  The claim as stated fails in the binary64 arithmetic of the program, where a sum is
  rounded. On \<open>new ClipAdjustment(0, 0, 3, 4)\<close>, of diagonal 5 and width 3,
  \<open>zoom(1e16)\<close> rounds the diagonal \<open>1e16 + 5\<close> to \<open>1e16 + 4\<close>, and
  \<open>zoom(-1e16)\<close> leaves a diagonal of 4 and a width of 2.4 (the binary64 value
  nearest to it), where \<open>zoom(1e16 + -1e16)\<close>, which is \<open>zoom(0)\<close>, leaves the
  diagonal at 5 and the width at 3.
\<close>

theorem zoom_additive_counterexample:
  "adj_hyp (adj_zoom_fl (Fin (- (10 ^ 16))) (adj_zoom_fl (Fin (10 ^ 16)) clip_3_4)) = Fin 4
   \<and> adj_hyp (adj_zoom_fl (fl_plus (Fin (10 ^ 16)) (Fin (- (10 ^ 16)))) clip_3_4) = Fin 5
   \<and> getWidth_fl (adj_zoom_fl (Fin (- (10 ^ 16))) (adj_zoom_fl (Fin (10 ^ 16)) clip_3_4))
       = Fin (5404319552844595 / 2 ^ 51)
   \<and> getWidth_fl (adj_zoom_fl (fl_plus (Fin (10 ^ 16)) (Fin (- (10 ^ 16)))) clip_3_4) = Fin 3"
proof -
  have two: "adj_hyp (adj_zoom_fl (Fin (- (10 ^ 16))) (adj_zoom_fl (Fin (10 ^ 16)) clip_3_4))
      = Fin 4"
    by (simp only: adj_zoom_fl_hyp clip_3_4_hyp fl_plus.simps binary64_sum binary64_diff)
  have sum: "fl_plus (Fin (10 ^ 16)) (Fin (- (10 ^ 16))) = Fin 0"
    by (simp add: binary64_0)
  have one: "adj_hyp (adj_zoom_fl (fl_plus (Fin (10 ^ 16)) (Fin (- (10 ^ 16)))) clip_3_4)
      = Fin 5"
    by (simp only: sum) (simp only: adj_zoom_fl_hyp clip_3_4_hyp fl_plus.simps binary64_same)
  have "getWidth_fl (adj_zoom_fl (Fin (- (10 ^ 16))) (adj_zoom_fl (Fin (10 ^ 16)) clip_3_4))
      = Fin (5404319552844595 / 2 ^ 51)"
    by (simp only: getWidth_fl_def two adj_zoom_fl_sin clip_3_4_sin)
      (simp only: fl_times.simps binary64_width_4)
  moreover
  have "getWidth_fl (adj_zoom_fl (fl_plus (Fin (10 ^ 16)) (Fin (- (10 ^ 16)))) clip_3_4) = Fin 3"
    by (simp only: getWidth_fl_def one adj_zoom_fl_sin clip_3_4_sin)
      (simp only: fl_times.simps binary64_width_5)
  ultimately show ?thesis
    using two one by blast
qed

text \<open>
  Claim C8: \<open>move(dx, dy)\<close> returns a rectangle whose left and top are those of the
  rectangle before the call plus \<open>dx\<close> and \<open>dy\<close>, and whose width and height are
  unchanged; the image rectangle of the result is the full image, and the stored image
  and viewport are untouched.
\<close>

theorem move_translates:
  "left (canvas (fst (move dx dy p))) = left (getState (priv_state p)) + dx
   \<and> top (canvas (fst (move dx dy p))) = top (getState (priv_state p)) + dy
   \<and> width (canvas (fst (move dx dy p))) = width (getState (priv_state p))
   \<and> height (canvas (fst (move dx dy p))) = height (getState (priv_state p))
   \<and> image (fst (move dx dy p)) =
       new_Clip (Fin 0) (Fin 0) (width (priv_image p)) (height (priv_image p))
   \<and> priv_image (snd (move dx dy p)) = priv_image p
   \<and> priv_canvas (snd (move dx dy p)) = priv_canvas p
   \<and> getState (priv_state (snd (move dx dy p))) = canvas (fst (move dx dy p))"
  by (simp add: move_def adj_move_def getState_def new_Clip_def getX_def getY_def
      getWidth_def getHeight_def Let_def)

text \<open>
  Claim C3 (zoom keeps the centre), as amended: for a ClipAdjustment constructed from
  finite numbers whose integer parts, as \<open>parseInt\<close> reads them, are not both zero, and
  then moved and zoomed by any finite amounts, a further \<open>zoom(a)\<close> by a finite amount
  leaves the centre \<open>(x + width()/2, y + height()/2)\<close> where it was.
\<close>

theorem zoom_keeps_center:
  assumes "\<not> (parseInt (Fin w) = Fin 0 \<and> parseInt (Fin h) = Fin 0)"
  shows "js_eq (center_x (adj_zoom (Fin a)
                  (calls cs (new_ClipAdjustment (Fin x) (Fin y) (Fin w) (Fin h)))))
               (center_x (calls cs (new_ClipAdjustment (Fin x) (Fin y) (Fin w) (Fin h))))
       \<and> js_eq (center_y (adj_zoom (Fin a)
                  (calls cs (new_ClipAdjustment (Fin x) (Fin y) (Fin w) (Fin h)))))
               (center_y (calls cs (new_ClipAdjustment (Fin x) (Fin y) (Fin w) (Fin h))))"
  by (rule finite_zoom_center) (rule calls_finite, rule new_ClipAdjustment_finite, rule assms)

text \<open>The theorem at a rectangle of 6 by 8, moved by (1, 2) and zoomed by 3, then zoomed by 4.\<close>

theorem zoom_keeps_center_witness:
  "\<not> (parseInt (Fin 6) = Fin 0 \<and> parseInt (Fin 8) = Fin 0)
   \<and> js_eq (center_x (adj_zoom (Fin 4)
              (calls [MoveBy 1 2, ZoomBy 3] (new_ClipAdjustment (Fin 0) (Fin 0) (Fin 6) (Fin 8)))))
           (center_x (calls [MoveBy 1 2, ZoomBy 3]
              (new_ClipAdjustment (Fin 0) (Fin 0) (Fin 6) (Fin 8))))
   \<and> js_eq (center_y (adj_zoom (Fin 4)
              (calls [MoveBy 1 2, ZoomBy 3] (new_ClipAdjustment (Fin 0) (Fin 0) (Fin 6) (Fin 8)))))
           (center_y (calls [MoveBy 1 2, ZoomBy 3]
              (new_ClipAdjustment (Fin 0) (Fin 0) (Fin 6) (Fin 8))))"
proof -
  have nz: "\<not> (parseInt (Fin 6) = Fin 0 \<and> parseInt (Fin 8) = Fin 0)"
    by (simp add: trunc_def)
  from zoom_keeps_center [OF nz, of 4 "[MoveBy 1 2, ZoomBy 3]" 0 0] nz show ?thesis
    by blast
qed

text \<open>
  The claim as stated fails for a width and a height of one half: they are not both
  zero, but \<open>parseInt\<close> reads both as 0, the diagonal is 0 and the ratios are
  \<open>NaN\<close>. The centre is \<open>NaN\<close> before and after \<open>zoom(1)\<close>, which compares
  unequal to everything.
\<close>

theorem zoom_keeps_center_counterexample:
  "\<not> ((1 / 2 :: real) = 0 \<and> (1 / 2 :: real) = 0)
   \<and> center_x (new_ClipAdjustment (Fin 0) (Fin 0) (Fin (1 / 2)) (Fin (1 / 2))) = NaN
   \<and> center_x (adj_zoom (Fin 1) (new_ClipAdjustment (Fin 0) (Fin 0) (Fin (1 / 2)) (Fin (1 / 2))))
       = NaN
   \<and> \<not> js_eq
         (center_x (adj_zoom (Fin 1)
            (new_ClipAdjustment (Fin 0) (Fin 0) (Fin (1 / 2)) (Fin (1 / 2)))))
         (center_x (new_ClipAdjustment (Fin 0) (Fin 0) (Fin (1 / 2)) (Fin (1 / 2))))"
  by (simp add: center_x_def adj_zoom_def new_ClipAdjustment_def getX_def getWidth_def
      Let_def trunc_def)

text \<open>
  Claim C4 (zoom never changes the aspect ratio), as amended: for a ClipAdjustment
  constructed with finite width \<open>w > 0\<close> and height \<open>h > 0\<close>, after any sequence of
  \<open>zoom\<close> calls with finite amounts the stored sine and cosine are those of the
  construction, and in exact arithmetic \<open>width()/height()\<close> equals
  \<open>parseInt(w)/parseInt(h)\<close> whenever both are nonzero numbers.
\<close>

theorem zoom_keeps_ratio:
  assumes "0 < w" and "0 < h"
  shows "adj_sin (zooms as (new_ClipAdjustment x y (Fin w) (Fin h)))
           = adj_sin (new_ClipAdjustment x y (Fin w) (Fin h))
       \<and> adj_cos (zooms as (new_ClipAdjustment x y (Fin w) (Fin h)))
           = adj_cos (new_ClipAdjustment x y (Fin w) (Fin h))
       \<and> (truthy (getWidth (zooms as (new_ClipAdjustment x y (Fin w) (Fin h))))
            \<and> truthy (getHeight (zooms as (new_ClipAdjustment x y (Fin w) (Fin h))))
          \<longrightarrow> js_eq (getWidth (zooms as (new_ClipAdjustment x y (Fin w) (Fin h)))
                      / getHeight (zooms as (new_ClipAdjustment x y (Fin w) (Fin h))))
                    (parseInt (Fin w) / parseInt (Fin h)))"
proof -
  let ?s0 = "new_ClipAdjustment x y (Fin w) (Fin h)"
  obtain pw ph where p: "parseInt (Fin w) = Fin pw" "parseInt (Fin h) = Fin ph"
    using parseInt_Fin by blast
  define r where "r = sqrt (pw\<^sup>2 + ph\<^sup>2)"
  have hyp0: "adj_hyp ?s0 = Fin r"
    by (simp add: new_ClipAdjustment_def Let_def p r_def not_sum_power2_lt_zero
        del: parseInt.simps)
  have sin0: "adj_sin ?s0 = Fin pw / Fin r" and cos0: "adj_cos ?s0 = Fin ph / Fin r"
    by (simp_all add: new_ClipAdjustment_def Let_def p r_def not_sum_power2_lt_zero
        del: parseInt.simps)
  have hypn: "adj_hyp (zooms as ?s0) = Fin (r + sum_list as)"
    using hyp0 by (rule zooms_hyp)
  have ratio: "js_eq (getWidth (zooms as ?s0) / getHeight (zooms as ?s0)) (Fin pw / Fin ph)"
    if t: "truthy (getWidth (zooms as ?s0))" "truthy (getHeight (zooms as ?s0))"
  proof (cases "r = 0")
    case True
    then have "pw = 0" by (simp add: r_def sqrt_sum_squares_zero)
    with True t(1) show ?thesis
      by (simp add: getWidth_def zooms_sin_cos sin0 hypn)
  next
    case False
    let ?d = "r + sum_list as"
    have wd: "getWidth (zooms as ?s0) = Fin (pw / r * ?d)"
      and ht: "getHeight (zooms as ?s0) = Fin (ph / r * ?d)"
      using False by (simp_all add: getWidth_def getHeight_def zooms_sin_cos sin0 cos0 hypn)
    from t wd ht have nz: "pw \<noteq> 0" "ph \<noteq> 0" "?d \<noteq> 0"
      by auto
    have "?d / r \<noteq> 0"
      using False nz by simp
    then have "pw * (?d / r) / (ph * (?d / r)) = pw / ph"
      by (rule mult_divide_mult_cancel_right)
    then have "pw / r * ?d / (ph / r * ?d) = pw / ph"
      by (simp add: mult.commute)
    with False nz show ?thesis
      by (simp add: wd ht)
  qed
  show ?thesis
    using ratio by (simp add: zooms_sin_cos p del: parseInt.simps)
qed

text \<open>The theorem at a rectangle of 6 by 8 zoomed by 5 and by -3: the ratio stays 6/8.\<close>

theorem zoom_keeps_ratio_witness:
  "(0::real) < 6 \<and> (0::real) < 8
   \<and> truthy (getWidth (zooms [5, - 3] (new_ClipAdjustment (Fin 0) (Fin 0) (Fin 6) (Fin 8))))
   \<and> truthy (getHeight (zooms [5, - 3] (new_ClipAdjustment (Fin 0) (Fin 0) (Fin 6) (Fin 8))))
   \<and> js_eq (getWidth (zooms [5, - 3] (new_ClipAdjustment (Fin 0) (Fin 0) (Fin 6) (Fin 8)))
             / getHeight (zooms [5, - 3] (new_ClipAdjustment (Fin 0) (Fin 0) (Fin 6) (Fin 8))))
            (parseInt (Fin 6) / parseInt (Fin 8))"
proof -
  have w: "truthy (getWidth (zooms [5, - 3] (new_ClipAdjustment (Fin 0) (Fin 0) (Fin 6) (Fin 8))))"
    and h: "truthy (getHeight (zooms [5, - 3] (new_ClipAdjustment (Fin 0) (Fin 0) (Fin 6) (Fin 8))))"
    by (simp_all add: new_6_8 adj_zoom_def getWidth_def getHeight_def Let_def)
  have pos: "(0::real) < 6" "(0::real) < 8" by simp_all
  from zoom_keeps_ratio [OF pos, of "[5, - 3]" "Fin 0" "Fin 0"] w h pos show ?thesis
    by blast
qed

text \<open>
  The claim as stated fails for a width of 3.5 and a height of 4: the constructor reads
  the width as 3, and after \<open>zoom(5)\<close> the rectangle is 6 by 8, of ratio 3/4 and not
  3.5/4.
\<close>

theorem zoom_keeps_ratio_counterexample:
  "(0::real) < 7 / 2 \<and> (0::real) < 4
   \<and> getWidth (zooms [5] (new_ClipAdjustment (Fin 0) (Fin 0) (Fin (7 / 2)) (Fin 4))) = Fin 6
   \<and> getHeight (zooms [5] (new_ClipAdjustment (Fin 0) (Fin 0) (Fin (7 / 2)) (Fin 4))) = Fin 8
   \<and> \<not> js_eq (getWidth (zooms [5] (new_ClipAdjustment (Fin 0) (Fin 0) (Fin (7 / 2)) (Fin 4)))
             / getHeight (zooms [5] (new_ClipAdjustment (Fin 0) (Fin 0) (Fin (7 / 2)) (Fin 4))))
            (Fin (7 / 2) / Fin 4)"
  by (simp add: new_ClipAdjustment_def sqrt_25 Let_def trunc_def adj_zoom_def getWidth_def
      getHeight_def)

text \<open>
  Why the amended claim is one of exact arithmetic: in the binary64 arithmetic of the
  program the ratio is not kept. On \<open>new ClipAdjustment(0, 0, 3, 4)\<close>, two calls
  \<open>zoom(2^1023)\<close> with a finite amount take the diagonal to \<open>2^1023\<close> and then,
  by overflow, to \<open>Infinity\<close>; the width and the height are \<open>Infinity\<close> and their
  quotient is \<open>NaN\<close>.
\<close>

lemma ratio_lost_by_overflow:
  "getWidth_fl (adj_zoom_fl (Fin (2 ^ 1023)) (adj_zoom_fl (Fin (2 ^ 1023)) clip_3_4)) = PInf
   \<and> getHeight_fl (adj_zoom_fl (Fin (2 ^ 1023)) (adj_zoom_fl (Fin (2 ^ 1023)) clip_3_4)) = PInf
   \<and> fl_divide
        (getWidth_fl (adj_zoom_fl (Fin (2 ^ 1023)) (adj_zoom_fl (Fin (2 ^ 1023)) clip_3_4)))
        (getHeight_fl (adj_zoom_fl (Fin (2 ^ 1023)) (adj_zoom_fl (Fin (2 ^ 1023)) clip_3_4)))
       = NaN"
proof -
  have d: "adj_hyp (adj_zoom_fl (Fin (2 ^ 1023)) (adj_zoom_fl (Fin (2 ^ 1023)) clip_3_4)) = PInf"
    by (simp only: adj_zoom_fl_hyp clip_3_4_hyp fl_plus.simps binary64_absorbs
        binary64_overflows)
  have w: "getWidth_fl (adj_zoom_fl (Fin (2 ^ 1023)) (adj_zoom_fl (Fin (2 ^ 1023)) clip_3_4))
      = PInf"
    by (simp only: getWidth_fl_def d adj_zoom_fl_sin clip_3_4_sin) simp
  have h: "getHeight_fl (adj_zoom_fl (Fin (2 ^ 1023)) (adj_zoom_fl (Fin (2 ^ 1023)) clip_3_4))
      = PInf"
    by (simp only: getHeight_fl_def d adj_zoom_fl_cos clip_3_4_cos) simp
  show ?thesis
    by (simp only: w h) simp
qed

section \<open>The zoom method of the plotter\<close>

text \<open>
  Claim C6 (what \<open>zoom\<close> applies), as amended: \<open>zoom\<close> applies
  \<open>adjustment.zoom(m * d)\<close> and returns the rectangle after it, where \<open>d\<close> is the
  integer read from \<open>zoom_depth\<close> (0 when it is absent or has no integer to read) and
  \<open>m\<close> is the per-call \<open>zoom_multiplier\<close> when one is supplied that is neither 0
  nor \<open>NaN\<close>, and the plotter's field \<open>zoom_multiplier\<close> otherwise.
\<close>

theorem zoom_applies:
  "snd (zoom opts p) =
     p\<lparr>priv_state := adj_zoom (amended_multiplier opts p * coerced_depth opts) (priv_state p)\<rparr>
   \<and> canvas (fst (zoom opts p)) =
     getState (adj_zoom (amended_multiplier opts p * coerced_depth opts) (priv_state p))"
proof -
  have m: "zoom_mult opts p = amended_multiplier opts p"
  proof (cases "opt_zoom_multiplier opts")
    case None
    then show ?thesis by (simp add: zoom_mult_def amended_multiplier_def)
  next
    case (Some v)
    then show ?thesis by (cases v) (simp_all add: zoom_mult_def amended_multiplier_def)
  qed
  have d: "zoom_depth opts = coerced_depth opts"
  proof (cases "opt_zoom_depth opts")
    case None
    then show ?thesis by (simp add: zoom_depth_def coerced_depth_def)
  next
    case (Some v)
    then show ?thesis
      using parseInt_cases [of v] by (auto simp: zoom_depth_def coerced_depth_def)
  qed
  show ?thesis by (simp add: zoom_def Let_def m d)
qed

text \<open>
  The theorem on the plotter of an 8 by 6 image in a 4 by 3 viewport, whose diagonal is
  5: a multiplier of 2 and a depth of 3.5 zoom by 6, to a diagonal of 11.
\<close>

theorem zoom_applies_witness:
  "adj_hyp (priv_state (snd (zoom \<lparr>opt_zoom_multiplier = Some (Fin 2),
                                    opt_zoom_depth = Some (Fin (7 / 2))\<rparr>
      (new_ImagePlotter (Fin 8) (Fin 6) (Fin 4) (Fin 3) (Some ''cover''))))) = Fin 11"
  using zoom_applies [of "\<lparr>opt_zoom_multiplier = Some (Fin 2), opt_zoom_depth = Some (Fin (7 / 2))\<rparr>"
      "new_ImagePlotter (Fin 8) (Fin 6) (Fin 4) (Fin 3) (Some ''cover'')"]
  by (simp add: plotter_8_6_4_3 amended_multiplier_def coerced_depth_def adj_zoom_def Let_def
      trunc_def)

text \<open>
  The claim as stated fails for a supplied multiplier of 0: on the same plotter, whose
  field \<open>zoom_multiplier\<close> is 1, \<open>zoom({zoom_multiplier: 0, zoom_depth: 5})\<close> zooms by
  \<open>1 * 5\<close> to a diagonal of 10, where the claim's \<open>0 * 5\<close> would leave it at 5.
\<close>

theorem zoom_applies_counterexample:
  "adj_hyp (priv_state (snd (zoom \<lparr>opt_zoom_multiplier = Some (Fin 0),
                                    opt_zoom_depth = Some (Fin 5)\<rparr>
      (new_ImagePlotter (Fin 8) (Fin 6) (Fin 4) (Fin 3) (Some ''cover''))))) = Fin 10
   \<and> adj_hyp (adj_zoom
       (claimed_multiplier \<lparr>opt_zoom_multiplier = Some (Fin 0), opt_zoom_depth = Some (Fin 5)\<rparr>
          (new_ImagePlotter (Fin 8) (Fin 6) (Fin 4) (Fin 3) (Some ''cover''))
        * coerced_depth \<lparr>opt_zoom_multiplier = Some (Fin 0), opt_zoom_depth = Some (Fin 5)\<rparr>)
       (priv_state (new_ImagePlotter (Fin 8) (Fin 6) (Fin 4) (Fin 3) (Some ''cover'')))) = Fin 5"
  by (simp add: plotter_8_6_4_3 zoom_def zoom_mult_def zoom_depth_def claimed_multiplier_def
      coerced_depth_def adj_zoom_def Let_def trunc_def)

text \<open>
  Claim C10 (a zoom without a usable depth changes nothing), as amended: on every
  reachable plotter, when \<open>zoom_depth\<close> is absent or has no integer to read and the
  multiplier in effect is a finite number, \<open>zoom\<close> leaves the plotter as it was and
  returns the rectangle it had before the call.
\<close>

theorem zoom_without_depth:
  assumes "reachable p"
    and "opt_zoom_depth opts = None \<or> (\<exists>d. opt_zoom_depth opts = Some d \<and> parseInt d = NaN)"
    and "is_Fin (zoom_mult opts p)"
  shows "zoom_depth opts = Fin 0
       \<and> snd (zoom opts p) = p
       \<and> canvas (fst (zoom opts p)) = getState (priv_state p)"
proof -
  from assms(3) obtain m where "zoom_mult opts p = Fin m"
    by (auto simp: is_Fin_iff)
  then have "zoom_mult opts p * zoom_depth opts = Fin 0"
    by (simp add: zoom_depth_unparsed [OF assms(2)])
  moreover have "adj_zoom (Fin 0) (priv_state p) = priv_state p"
    using assms(1) by (simp add: adj_zoom_zero reachable_ratios_ok)
  ultimately show ?thesis
    by (simp add: zoom_def Let_def zoom_depth_unparsed [OF assms(2)])
qed

text \<open>
  The theorem on the plotter of an 8 by 6 image in a 4 by 3 viewport, with a depth of
  \<open>NaN\<close> and a multiplier of 7.
\<close>

theorem zoom_without_depth_witness:
  "reachable (new_ImagePlotter (Fin 8) (Fin 6) (Fin 4) (Fin 3) (Some ''cover''))
   \<and> parseInt NaN = NaN
   \<and> is_Fin (zoom_mult \<lparr>opt_zoom_multiplier = Some (Fin 7), opt_zoom_depth = Some NaN\<rparr>
        (new_ImagePlotter (Fin 8) (Fin 6) (Fin 4) (Fin 3) (Some ''cover'')))
   \<and> snd (zoom \<lparr>opt_zoom_multiplier = Some (Fin 7), opt_zoom_depth = Some NaN\<rparr>
        (new_ImagePlotter (Fin 8) (Fin 6) (Fin 4) (Fin 3) (Some ''cover'')))
     = new_ImagePlotter (Fin 8) (Fin 6) (Fin 4) (Fin 3) (Some ''cover'')
   \<and> canvas (fst (zoom \<lparr>opt_zoom_multiplier = Some (Fin 7), opt_zoom_depth = Some NaN\<rparr>
        (new_ImagePlotter (Fin 8) (Fin 6) (Fin 4) (Fin 3) (Some ''cover''))))
     = \<lparr>left = Fin 0, top = Fin 0, width = Fin 4, height = Fin 3\<rparr>"
proof -
  let ?p = "new_ImagePlotter (Fin 8) (Fin 6) (Fin 4) (Fin 3) (Some ''cover'')"
  let ?o = "\<lparr>opt_zoom_multiplier = Some (Fin 7), opt_zoom_depth = Some NaN\<rparr>"
  have r: "reachable ?p"
    by (rule reachable.constructed)
  have d: "opt_zoom_depth ?o = None \<or> (\<exists>d. opt_zoom_depth ?o = Some d \<and> parseInt d = NaN)"
    by simp
  have m: "is_Fin (zoom_mult ?o ?p)"
    by (simp add: zoom_mult_def)
  have g: "getState (priv_state ?p) = \<lparr>left = Fin 0, top = Fin 0, width = Fin 4, height = Fin 3\<rparr>"
    by (simp add: plotter_8_6_4_3 getState_def getX_def getY_def getWidth_def getHeight_def
        new_Clip_def)
  from zoom_without_depth [OF r d m] r m g show ?thesis
    by simp
qed

text \<open>
  The claim as stated fails for a multiplier that is not finite: on the same plotter,
  \<open>zoom({zoom_multiplier: Infinity})\<close> has no depth, zooms by \<open>Infinity * 0\<close>, which
  is \<open>NaN\<close>, and the position and the diagonal are \<open>NaN\<close> afterwards.
\<close>

theorem zoom_without_depth_counterexample:
  "reachable (new_ImagePlotter (Fin 8) (Fin 6) (Fin 4) (Fin 3) (Some ''cover''))
   \<and> priv_state (new_ImagePlotter (Fin 8) (Fin 6) (Fin 4) (Fin 3) (Some ''cover'')) =
       \<lparr>adj_x = Fin 0, adj_y = Fin 0, adj_hyp = Fin 5,
        adj_sin = Fin (4 / 5), adj_cos = Fin (3 / 5)\<rparr>
   \<and> priv_state (snd (zoom \<lparr>opt_zoom_multiplier = Some PInf, opt_zoom_depth = None\<rparr>
        (new_ImagePlotter (Fin 8) (Fin 6) (Fin 4) (Fin 3) (Some ''cover'')))) =
       \<lparr>adj_x = NaN, adj_y = NaN, adj_hyp = NaN,
        adj_sin = Fin (4 / 5), adj_cos = Fin (3 / 5)\<rparr>"
proof -
  have "reachable (new_ImagePlotter (Fin 8) (Fin 6) (Fin 4) (Fin 3) (Some ''cover''))"
    by (rule reachable.constructed)
  then show ?thesis
    by (simp add: plotter_8_6_4_3 zoom_def zoom_mult_def zoom_depth_def adj_zoom_def Let_def)
qed

end
